theory Spec2Isabelle
  imports Complex_Main "HOL-Library.AList"
begin

section \<open>JavaScript values\<close>

text \<open>
  The strategy is written in JavaScript, so its data are dynamically typed values.
  A number is an IEEE double: a finite value (always a rational), an infinity, or NaN.
  Only the test "is it zero or NaN" is ever made on a number by this module.
\<close>

datatype number = Finite rat | Infinity bool | NaN

datatype jsval =
    JUndefined
  | JNull
  | JBool bool
  | JNum number
  | JStr string
  | JArr "jsval list"
  | JObj "(string \<times> jsval) list"

text \<open>
  An object is its list of own properties in insertion order, the way an object literal
  and later assignments build it.
\<close>

type_synonym jsobj = "(string \<times> jsval) list"

text \<open>
  What a \<^verbatim>\<open>throw\<close> carries: the SyntaxError of \<^verbatim>\<open>JSON.parse\<close> (with its message), the
  TypeError of a property read on \<^verbatim>\<open>undefined\<close> or \<^verbatim>\<open>null\<close> (the value read from and the
  property name), or any other thrown value.
\<close>

datatype exn = SyntaxError string | TypeError jsval string | Thrown jsval

text \<open>Truthiness, as tested by \<^verbatim>\<open>if (v)\<close>, \<^verbatim>\<open>v || w\<close> and \<^verbatim>\<open>v && w\<close>.\<close>

fun truthy :: "jsval \<Rightarrow> bool" where
  "truthy JUndefined = False"
| "truthy JNull = False"
| "truthy (JBool b) = b"
| "truthy (JNum (Finite q)) = (q \<noteq> 0)"
| "truthy (JNum (Infinity s)) = True"
| "truthy (JNum NaN) = False"
| "truthy (JStr s) = (s \<noteq> [])"
| "truthy (JArr xs) = True"
| "truthy (JObj kvs) = True"

text \<open>\<^verbatim>\<open>a || b\<close>\<close>

definition or_else :: "jsval \<Rightarrow> jsval \<Rightarrow> jsval" where
  "or_else a b = (if truthy a then a else b)"

text \<open>
  \<^verbatim>\<open>obj.k\<close> on an object: the own property, \<^verbatim>\<open>undefined\<close> when there is none.
  \<^verbatim>\<open>obj.k = v\<close>: replaces the property where it stands, or appends it.
  The property names this module reads with a fixed name (\<^verbatim>\<open>items\<close>, \<^verbatim>\<open>length\<close>, \<^verbatim>\<open>id\<close>,
  \<^verbatim>\<open>snippet\<close>, \<^verbatim>\<open>title\<close> and the option names) are not members of the built-in
  prototypes, so an own-property lookup is the whole read. The one lookup under a
  caller-chosen name, in \<^verbatim>\<open>_convertProfileFields\<close>, is modelled with the prototype below.
\<close>

definition lookup :: "jsobj \<Rightarrow> string \<Rightarrow> jsval" where
  "lookup obj k = (case map_of obj k of None \<Rightarrow> JUndefined | Some v \<Rightarrow> v)"

definition assign :: "jsobj \<Rightarrow> string \<Rightarrow> jsval \<Rightarrow> jsobj" where
  "assign obj k v = AList.update k v obj"

text \<open>
  \<^verbatim>\<open>v.k\<close> on any value. Reading a property of \<^verbatim>\<open>undefined\<close> or \<^verbatim>\<open>null\<close> throws a
  TypeError; arrays and strings have a \<^verbatim>\<open>length\<close>; booleans and numbers have none of the
  properties read here. A string is taken as its sequence of code units.
\<close>

fun get :: "jsval \<Rightarrow> string \<Rightarrow> exn + jsval" where
  "get JUndefined k = Inl (TypeError JUndefined k)"
| "get JNull k = Inl (TypeError JNull k)"
| "get (JBool b) k = Inr JUndefined"
| "get (JNum n) k = Inr JUndefined"
| "get (JStr s) k =
     Inr (if k = ''length'' then JNum (Finite (of_nat (length s))) else JUndefined)"
| "get (JArr xs) k =
     Inr (if k = ''length'' then JNum (Finite (of_nat (length xs))) else JUndefined)"
| "get (JObj obj) k = Inr (lookup obj k)"

text \<open>\<^verbatim>\<open>v[0]\<close> on any value.\<close>

fun get0 :: "jsval \<Rightarrow> exn + jsval" where
  "get0 JUndefined = Inl (TypeError JUndefined ''0'')"
| "get0 JNull = Inl (TypeError JNull ''0'')"
| "get0 (JBool b) = Inr JUndefined"
| "get0 (JNum n) = Inr JUndefined"
| "get0 (JStr s) = Inr (case s of [] \<Rightarrow> JUndefined | c # cs \<Rightarrow> JStr [c])"
| "get0 (JArr xs) = Inr (case xs of [] \<Rightarrow> JUndefined | x # ys \<Rightarrow> x)"
| "get0 (JObj obj) = Inr (lookup obj ''0'')"

text \<open>Sequencing of evaluations that may throw: the first exception ends the block.\<close>

fun and_then :: "exn + 'a \<Rightarrow> ('a \<Rightarrow> exn + 'b) \<Rightarrow> exn + 'b" where
  "and_then (Inl e) f = Inl e"
| "and_then (Inr x) f = f x"

section \<open>Retrieving the user profile\<close>

text \<open>
  The strategy object, as far as this module writes it: \<^verbatim>\<open>this.name\<close> and
  \<^verbatim>\<open>this._profileURL\<close>.
\<close>

record strategy =
  name :: string
  priv_profileURL :: jsval

text \<open>
  What \<^verbatim>\<open>done\<close> is called with: \<^verbatim>\<open>done(err)\<close> or \<^verbatim>\<open>done(null, profile)\<close>.
  The error is either \<^verbatim>\<open>new InternalOAuthError(message, err)\<close> or a caught exception,
  handed on as it is.
\<close>

datatype failure = InternalOAuthError string jsval | Caught exn

datatype completion = Failure failure | Success jsobj

text \<open>
  \<^verbatim>\<open>json.items && json.items.length && json.items[0]\<close>: each operand is evaluated only
  when the ones before it are truthy, and the value is the first falsy operand or the
  last one.
\<close>

definition youtubeProfile :: "jsval \<Rightarrow> exn + jsval" where
  "youtubeProfile json =
     and_then (get json ''items'') (\<lambda>items.
       if \<not> truthy items then Inr items
       else and_then (and_then (get json ''items'') (\<lambda>items. get items ''length'')) (\<lambda>len.
         if \<not> truthy len then Inr len
         else and_then (get json ''items'') get0))"

text \<open>
  The statements of the \<^verbatim>\<open>try\<close> block after \<^verbatim>\<open>JSON.parse\<close>, up to the call of \<^verbatim>\<open>done\<close>:
  the profile built from the parsed body, or the exception thrown on the way.
\<close>

definition build_profile :: "jsval \<Rightarrow> jsval \<Rightarrow> exn + jsobj" where
  "build_profile body json =
     and_then (youtubeProfile json) (\<lambda>yp.
       let profile = [(''provider'', JStr ''youtube'')] in
       and_then
         (if truthy yp then
            and_then (get yp ''id'') (\<lambda>i.
              let profile = assign profile ''id'' i in
              and_then (and_then (get yp ''snippet'') (\<lambda>s. get s ''title'')) (\<lambda>t.
                Inr (assign profile ''displayName'' t)))
          else Inr profile)
         (\<lambda>profile.
            let profile = assign profile ''_raw'' body;
                profile = assign profile ''_json'' json
            in Inr profile))"

text \<open>
  The callback handed to \<^verbatim>\<open>getProtectedResource\<close>. \<^verbatim>\<open>JSON.parse\<close> is the language's
  own parser, taken as a parameter: the body's parsed value, or the exception it throws.
  \<^verbatim>\<open>done\<close> is the caller's continuation: \<^verbatim>\<open>done c\<close> is the exception it throws when called
  with \<^verbatim>\<open>c\<close>, if it throws. The result is the sequence of calls made to \<^verbatim>\<open>done\<close>.
  The successful call stands inside the \<^verbatim>\<open>try\<close> block, so an exception thrown by \<^verbatim>\<open>done\<close>
  there is caught and \<^verbatim>\<open>done\<close> is called again with it. An exception \<^verbatim>\<open>done\<close> throws
  outside the block leaves the callback and is the fetch primitive's to handle.
\<close>

definition userProfile_callback ::
  "(jsval \<Rightarrow> exn + jsval) \<Rightarrow> (completion \<Rightarrow> exn option) \<Rightarrow> jsval \<Rightarrow> jsval \<Rightarrow> completion list"
where
  "userProfile_callback JSON_parse done err body =
     (if truthy err then
        [Failure (InternalOAuthError ''failed to fetch user profile'' err)]
      else
        case and_then (JSON_parse body) (build_profile body) of
          Inl e \<Rightarrow> [Failure (Caught e)]
        | Inr profile \<Rightarrow>
            (case done (Success profile) of
               None \<Rightarrow> [Success profile]
             | Some e \<Rightarrow> [Success profile, Failure (Caught e)]))"

text \<open>
  \<^verbatim>\<open>Strategy.prototype.userProfile\<close>. The fetch primitive \<^verbatim>\<open>this._oauth2.getProtectedResource\<close>
  belongs to the OAuth2 collaborator: given the URL and the access token it calls the
  callback once with \<^verbatim>\<open>(err, body, res)\<close>.
\<close>

definition userProfile ::
  "strategy \<Rightarrow> (jsval \<Rightarrow> jsval \<Rightarrow> jsval \<times> jsval \<times> jsval) \<Rightarrow> (jsval \<Rightarrow> exn + jsval) \<Rightarrow>
   jsval \<Rightarrow> (completion \<Rightarrow> exn option) \<Rightarrow> completion list"
where
  "userProfile self getProtectedResource JSON_parse accessToken done =
     (let url = priv_profileURL self in
      case getProtectedResource url accessToken of
        (err, body, res) \<Rightarrow> userProfile_callback JSON_parse done err body)"

section \<open>Profile field names\<close>

text \<open>
  \<^verbatim>\<open>Strategy.prototype._convertProfileFields\<close>. The local \<^verbatim>\<open>map\<close> is an object literal, so
  \<^verbatim>\<open>map[f]\<close> finds its four own properties and, under any other name, the members every
  object inherits from \<^verbatim>\<open>Object.prototype\<close>. A value of \<^verbatim>\<open>map[f]\<close> is a string, an array
  of strings, or such an inherited built-in (a function, or the prototype object itself),
  which is kept as the text that \<^verbatim>\<open>String\<close> prints for it.
\<close>

datatype member = Str string | Arr "string list" | Native string

definition field_map :: "(string \<times> member) list" where
  "field_map =
     [(''id'', Str ''id''),
      (''username'', Str ''username''),
      (''displayName'', Str ''name''),
      (''name'', Arr [''last_name'', ''first_name''])]"

definition Object_prototype :: "(string \<times> member) list" where
  "Object_prototype =
     [(''constructor'', Native ''function Object() { [native code] }''),
      (''toString'', Native ''function toString() { [native code] }''),
      (''toLocaleString'', Native ''function toLocaleString() { [native code] }''),
      (''valueOf'', Native ''function valueOf() { [native code] }''),
      (''hasOwnProperty'', Native ''function hasOwnProperty() { [native code] }''),
      (''isPrototypeOf'', Native ''function isPrototypeOf() { [native code] }''),
      (''propertyIsEnumerable'', Native ''function propertyIsEnumerable() { [native code] }''),
      (''__defineGetter__'', Native ''function __defineGetter__() { [native code] }''),
      (''__defineSetter__'', Native ''function __defineSetter__() { [native code] }''),
      (''__lookupGetter__'', Native ''function __lookupGetter__() { [native code] }''),
      (''__lookupSetter__'', Native ''function __lookupSetter__() { [native code] }''),
      (''__proto__'', Native ''[object Object]'')]"

text \<open>\<^verbatim>\<open>map[f]\<close>: an own property first, then an inherited one; \<^verbatim>\<open>None\<close> is \<^verbatim>\<open>undefined\<close>.\<close>

definition map_member :: "string \<Rightarrow> member option" where
  "map_member f = map_of (field_map @ Object_prototype) f"

text \<open>\<^verbatim>\<open>xs.join(sep)\<close> on strings, and the string each element of \<^verbatim>\<open>fields\<close> is joined as.\<close>

fun join :: "string \<Rightarrow> string list \<Rightarrow> string" where
  "join sep [] = []"
| "join sep [x] = x"
| "join sep (x # y # ys) = x @ sep @ join sep (y # ys)"

fun to_string :: "member \<Rightarrow> string" where
  "to_string (Str s) = s"
| "to_string (Arr xs) = join '','' xs"
| "to_string (Native s) = s"

text \<open>
  The body of the \<^verbatim>\<open>forEach\<close> callback: the array \<^verbatim>\<open>fields\<close> (here \<open>pushed\<close>, what has
  been pushed so far) after the requested name \<^verbatim>\<open>f\<close>.
  \<^verbatim>\<open>typeof map[f] === 'undefined'\<close> returns early; an array is pushed element by element;
  anything else is pushed as it is.
\<close>

definition convert_field :: "member list \<Rightarrow> string \<Rightarrow> member list" where
  "convert_field pushed f =
     (case map_member f of
        None \<Rightarrow> pushed
      | Some (Arr xs) \<Rightarrow> pushed @ map Str xs
      | Some v \<Rightarrow> pushed @ [v])"

definition convertProfileFields :: "string list \<Rightarrow> jsval" where
  "convertProfileFields profileFields =
     (let pushed = foldl convert_field [] profileFields
      in JStr (join '','' (map to_string pushed)))"

section \<open>Authorization parameters\<close>

text \<open>
  \<^verbatim>\<open>Strategy.prototype.authorizationParams\<close>, on an options object (the OAuth2 collaborator
  calls it with an object).
\<close>

definition authorizationParams :: "jsobj \<Rightarrow> jsobj" where
  "authorizationParams options =
     (let params = [];
          params = (if truthy (lookup options ''accessType'')
                    then assign params ''access_type'' (lookup options ''accessType'')
                    else params);
          params = (if truthy (lookup options ''approvalPrompt'')
                    then assign params ''approval_prompt'' (lookup options ''approvalPrompt'')
                    else params);
          params = (if truthy (lookup options ''prompt'')
                    then assign params ''prompt'' (lookup options ''prompt'')
                    else params);
          params = (if truthy (lookup options ''loginHint'')
                    then assign params ''login_hint'' (lookup options ''loginHint'')
                    else params);
          params = (if truthy (lookup options ''userID'')
                    then assign params ''user_id'' (lookup options ''userID'')
                    else params);
          params = (if truthy (or_else (lookup options ''hostedDomain'') (lookup options ''hd''))
                    then assign params ''hd''
                           (or_else (lookup options ''hostedDomain'') (lookup options ''hd''))
                    else params);
          params = (if truthy (lookup options ''display'')
                    then assign params ''display'' (lookup options ''display'')
                    else params);
          params = (if truthy (lookup options ''requestVisibleActions'')
                    then assign params ''request_visible_actions''
                           (lookup options ''requestVisibleActions'')
                    else params);
          params = (if truthy (lookup options ''openIDRealm'')
                    then assign params ''openid.realm'' (lookup options ''openIDRealm'')
                    else params)
      in params)"

section \<open>The constructor\<close>

text \<open>
  The constructor writes to the options object it is given, so objects live in a store:
  a reference is an address, \<^verbatim>\<open>objs\<close> holds the object at each address and \<^verbatim>\<open>next_ref\<close>
  is the first address not yet allocated.

  An object in the store has its own properties, each with its value and whether it is
  writable; the properties it inherits along its prototype chain, nearest first (the
  constructor never writes to a prototype, so the chain is kept flattened); and whether it
  is extensible. A frozen object has no writable property and is not extensible.
  Properties are data properties: an options object with getters or setters is outside
  this model.
\<close>

type_synonym slots = "(string \<times> jsval \<times> bool) list"

record js_object =
  own :: slots
  inherited :: slots
  extensible :: bool

record store =
  objs :: "nat \<Rightarrow> js_object"
  next_ref :: nat
  object_proto :: slots

text \<open>\<^verbatim>\<open>obj.k\<close>: the own property, else the inherited one, else \<^verbatim>\<open>undefined\<close>.\<close>

definition read_prop :: "js_object \<Rightarrow> string \<Rightarrow> jsval" where
  "read_prop obj k =
     (case map_of (own obj) k of
        Some (v, w) \<Rightarrow> v
      | None \<Rightarrow>
          (case map_of (inherited obj) k of
             Some (v, w) \<Rightarrow> v
           | None \<Rightarrow> JUndefined))"

text \<open>
  Whether the assignment \<^verbatim>\<open>obj.k = v\<close> takes effect: an own property must be writable; a
  property that is not an own one is created only on an extensible object, and not when a
  read-only property of that name is inherited.
\<close>

definition can_write :: "js_object \<Rightarrow> string \<Rightarrow> bool" where
  "can_write obj k =
     (case map_of (own obj) k of
        Some (v, w) \<Rightarrow> w
      | None \<Rightarrow>
          extensible obj
          \<and> (case map_of (inherited obj) k of
                Some (v, w) \<Rightarrow> w
              | None \<Rightarrow> True))"

text \<open>
  \<^verbatim>\<open>obj.k = v\<close>. The file has no \<^verbatim>\<open>'use strict'\<close>, so an assignment that cannot take effect
  is dropped silently and the object stays as it was. One that takes effect replaces the
  value of the own property where it stands, or appends a new writable own property.
\<close>

definition write_prop :: "js_object \<Rightarrow> string \<Rightarrow> jsval \<Rightarrow> js_object" where
  "write_prop obj k v =
     (if can_write obj k then obj\<lparr>own := AList.update k (v, True) (own obj)\<rparr> else obj)"

text \<open>
  \<^verbatim>\<open>options = options || {}\<close>. The argument \<^verbatim>\<open>options\<close> is a reference to the caller's object,
  or is left out (\<^verbatim>\<open>None\<close>), in which case a new object is allocated: empty, extensible, and
  inheriting what \<^verbatim>\<open>Object.prototype\<close> holds (\<^verbatim>\<open>object_proto\<close>).
\<close>

definition options_or_new :: "store \<Rightarrow> nat option \<Rightarrow> store \<times> nat" where
  "options_or_new st options =
     (case options of
        Some r \<Rightarrow> (st, r)
      | None \<Rightarrow>
          (st\<lparr>objs := (objs st)(next_ref st :=
                  \<lparr>own = [], inherited = object_proto st, extensible = True\<rparr>),
              next_ref := Suc (next_ref st)\<rparr>,
           next_ref st))"

text \<open>\<^verbatim>\<open>options.k = options.k || dflt\<close> on the object at address \<^verbatim>\<open>r\<close>.\<close>

definition default_option :: "store \<Rightarrow> nat \<Rightarrow> string \<Rightarrow> jsval \<Rightarrow> store" where
  "default_option st r k dflt =
     st\<lparr>objs := (objs st)(r :=
          write_prop (objs st r) k (or_else (read_prop (objs st r) k) dflt))\<rparr>"

text \<open>
  \<^verbatim>\<open>function Strategy(options, verify)\<close>. The base constructor \<^verbatim>\<open>OAuth2Strategy\<close> belongs
  to the collaborator: it reads the options object and may throw (\<^verbatim>\<open>Some e\<close>). The
  result is the store after the call, and the new strategy or the exception.
\<close>

definition Strategy ::
  "(js_object \<Rightarrow> 'v \<Rightarrow> exn option) \<Rightarrow> store \<Rightarrow> nat option \<Rightarrow> 'v \<Rightarrow>
   store \<times> (exn + strategy)"
where
  "Strategy OAuth2Strategy st options verify =
     (let (st, options) = options_or_new st options;
          st = default_option st options ''authorizationURL''
                 (JStr ''https://accounts.google.com/o/oauth2/auth'');
          st = default_option st options ''tokenURL''
                 (JStr ''https://accounts.google.com/o/oauth2/token'');
          st = default_option st options ''scope''
                 (JArr [JStr ''https://www.googleapis.com/auth/youtube.readonly''])
      in case OAuth2Strategy (objs st options) verify of
           Some e \<Rightarrow> (st, Inl e)
         | None \<Rightarrow>
             (st, Inr \<lparr>name = ''youtube'',
                       priv_profileURL =
                         or_else (read_prop (objs st options) ''profileURL'')
                           (JStr ''https://www.googleapis.com/youtube/v3/channels?part=snippet&mine=true'')\<rparr>))"

section \<open>The specification's vocabulary\<close>

text \<open>
  The specification speaks of the "item list" of a parsed response: the \<^verbatim>\<open>items\<close> member
  of the response object. \<open>items_of\<close> is that member; \<open>None\<close> says the parsed body has no
  such member (which is also the case when it is not an object at all).
\<close>

definition items_of :: "jsval \<Rightarrow> jsval option" where
  "items_of json = (case json of JObj obj \<Rightarrow> map_of obj ''items'' | _ \<Rightarrow> None)"

text \<open>
  The specification's field-name table: \<^verbatim>\<open>id\<close> to \<^verbatim>\<open>id\<close>, \<^verbatim>\<open>username\<close> to \<^verbatim>\<open>username\<close>,
  \<^verbatim>\<open>displayName\<close> to \<^verbatim>\<open>name\<close>, \<^verbatim>\<open>name\<close> to \<^verbatim>\<open>last_name\<close> then \<^verbatim>\<open>first_name\<close>; any other
  name to nothing.
\<close>

definition provider_fields :: "string \<Rightarrow> string list" where
  "provider_fields f =
     (if f = ''id'' then [''id'']
      else if f = ''username'' then [''username'']
      else if f = ''displayName'' then [''name'']
      else if f = ''name'' then [''last_name'', ''first_name'']
      else [])"

text \<open>
  The specification's table of authorization parameters: the entry under each query key
  is the value of the option it is renamed from, when that option is set; \<^verbatim>\<open>hd\<close> comes
  from \<^verbatim>\<open>hostedDomain\<close>, or from \<^verbatim>\<open>hd\<close> when \<^verbatim>\<open>hostedDomain\<close> is not set; there is no other
  entry.
\<close>

definition documented_params :: "jsobj \<Rightarrow> string \<Rightarrow> jsval option" where
  "documented_params options q =
     (if q = ''access_type'' then map_of options ''accessType''
      else if q = ''approval_prompt'' then map_of options ''approvalPrompt''
      else if q = ''prompt'' then map_of options ''prompt''
      else if q = ''login_hint'' then map_of options ''loginHint''
      else if q = ''user_id'' then map_of options ''userID''
      else if q = ''hd'' then
        (case map_of options ''hostedDomain'' of
           Some v \<Rightarrow> Some v
         | None \<Rightarrow> map_of options ''hd'')
      else if q = ''display'' then map_of options ''display''
      else if q = ''request_visible_actions'' then map_of options ''requestVisibleActions''
      else if q = ''openid.realm'' then map_of options ''openIDRealm''
      else None)"

text \<open>Every field that is set on the options object holds a truthy value.\<close>

definition all_truthy :: "jsobj \<Rightarrow> bool" where
  "all_truthy options = (\<forall>k v. map_of options k = Some v \<longrightarrow> truthy v)"

section \<open>Example collaborators and inputs\<close>

text \<open>
  Concrete inputs on which the theorems below are instantiated. The response bodies are
  the specification's examples, together with a response whose first item has no
  \<^verbatim>\<open>snippet\<close> and the body \<^verbatim>\<open>null\<close>; each comes with the value \<^verbatim>\<open>JSON.parse\<close> returns for it.
\<close>

definition channel_body :: jsval where
  \<open>channel_body = JStr ''{"items":[{"id":"abc","snippet":{"title":"My Channel"}}]}''\<close>

definition channel_json :: jsval where
  "channel_json =
     JObj [(''items'', JArr [JObj [(''id'', JStr ''abc''),
                                   (''snippet'', JObj [(''title'', JStr ''My Channel'')])]])]"

definition no_snippet_body :: jsval where
  \<open>no_snippet_body = JStr ''{"items":[{"id":"abc"}]}''\<close>

definition no_snippet_json :: jsval where
  "no_snippet_json = JObj [(''items'', JArr [JObj [(''id'', JStr ''abc'')]])]"

definition empty_items_body :: jsval where
  \<open>empty_items_body = JStr ''{"items":[]}''\<close>

definition empty_items_json :: jsval where
  "empty_items_json = JObj [(''items'', JArr [])]"

definition null_body :: jsval where
  "null_body = JStr ''null''"

definition not_json_body :: jsval where
  "not_json_body = JStr ''not json''"

text \<open>
  \<^verbatim>\<open>JSON.parse\<close> on the bodies above. It stands for the parser on these bodies only: it is
  applied to no other body below, and there it reports a syntax error.
\<close>

definition JSON_parse_sample :: "jsval \<Rightarrow> exn + jsval" where
  "JSON_parse_sample body =
     (if body = channel_body then Inr channel_json
      else if body = no_snippet_body then Inr no_snippet_json
      else if body = empty_items_body then Inr empty_items_json
      else if body = null_body then Inr JNull
      else Inl (SyntaxError ''Unexpected token o in JSON at position 1''))"

text \<open>
  A fetch that succeeds with a given body, \<^verbatim>\<open>callback(null, body, res)\<close>, and one that
  fails with a given error, \<^verbatim>\<open>callback(err, null, null)\<close>; a \<^verbatim>\<open>done\<close> that returns normally;
  the strategy with the default profile URL; a base constructor that accepts every options
  object.
\<close>

definition fetch_ok :: "jsval \<Rightarrow> jsval \<Rightarrow> jsval \<Rightarrow> jsval \<times> jsval \<times> jsval" where
  "fetch_ok body url accessToken = (JNull, body, JObj [(''statusCode'', JNum (Finite 200))])"

definition fetch_failed :: "jsval \<Rightarrow> jsval \<Rightarrow> jsval \<Rightarrow> jsval \<times> jsval \<times> jsval" where
  "fetch_failed err url accessToken = (err, JNull, JNull)"

definition done_returns :: "completion \<Rightarrow> exn option" where
  "done_returns c = None"

definition youtube_strategy :: strategy where
  "youtube_strategy =
     \<lparr>name = ''youtube'',
      priv_profileURL =
        JStr ''https://www.googleapis.com/youtube/v3/channels?part=snippet&mine=true''\<rparr>"

definition access_token :: jsval where
  "access_token = JStr ''ya29.token''"

definition transport_error :: jsval where
  "transport_error = JObj [(''statusCode'', JNum (Finite 401)), (''data'', JStr ''Unauthorized'')]"

definition OAuth2Strategy_accepts :: "js_object \<Rightarrow> unit \<Rightarrow> exn option" where
  "OAuth2Strategy_accepts options verify = None"

text \<open>
  A store with the caller's options object at address 0 and another object at address 1.
  The caller's object is an ordinary one: client credentials and a scope of its own, all
  writable, no URL of its own, and a token URL that it inherits from a prototype.
\<close>

definition caller_options :: js_object where
  "caller_options =
     \<lparr>own = [(''clientID'', JStr ''id-1'', True),
             (''clientSecret'', JStr ''secret-1'', True),
             (''scope'', JArr [JStr ''https://www.googleapis.com/auth/youtube''], True)],
      inherited = [(''tokenURL'', JStr ''https://example.org/token'', True)],
      extensible = True\<rparr>"

definition other_object :: js_object where
  "other_object = \<lparr>own = [(''other'', JBool True, True)], inherited = [], extensible = True\<rparr>"

definition caller_store :: store where
  "caller_store =
     \<lparr>objs = (\<lambda>r. if r = 0 then caller_options else other_object),
      next_ref = 2,
      object_proto = []\<rparr>"

text \<open>
  The same store with a frozen options object at address 0, as
  \<^verbatim>\<open>Object.freeze({clientID, clientSecret, authorizationURL, tokenURL})\<close> makes it: no property
  is writable and the object is not extensible. It has no \<^verbatim>\<open>scope\<close>.
\<close>

definition frozen_options :: js_object where
  "frozen_options =
     \<lparr>own = [(''clientID'', JStr ''id-1'', False),
             (''clientSecret'', JStr ''secret-1'', False),
             (''authorizationURL'', JStr ''https://accounts.google.com/o/oauth2/auth'', False),
             (''tokenURL'', JStr ''https://accounts.google.com/o/oauth2/token'', False)],
      inherited = [],
      extensible = False\<rparr>"

definition frozen_store :: store where
  "frozen_store =
     \<lparr>objs = (\<lambda>r. if r = 0 then frozen_options else other_object),
      next_ref = 2,
      object_proto = []\<rparr>"

text \<open>Options with an empty \<^verbatim>\<open>hostedDomain\<close> and a non-empty \<^verbatim>\<open>hd\<close>, and options with both set.\<close>

definition empty_hostedDomain_options :: jsobj where
  "empty_hostedDomain_options = [(''hostedDomain'', JStr ''''), (''hd'', JStr ''example.com'')]"

definition both_domains_options :: jsobj where
  "both_domains_options =
     [(''accessType'', JStr ''offline''),
      (''hostedDomain'', JStr ''example.org''),
      (''hd'', JStr ''example.com'')]"

section \<open>Properties of the profile retrieval\<close>

subsection \<open>Reading the parsed response\<close>

lemma get_items_of: "items_of json = Some v \<Longrightarrow> get json ''items'' = Inr v"
  by (cases json) (simp_all add: items_of_def lookup_def)

lemma get_no_items:
  assumes "items_of json = None" and "json \<noteq> JNull" and "json \<noteq> JUndefined"
  shows "get json ''items'' = Inr JUndefined"
  using assms by (cases json) (simp_all add: items_of_def lookup_def)

lemma youtubeProfile_first:
  "get json ''items'' = Inr (JArr (item # rest)) \<Longrightarrow> youtubeProfile json = Inr item"
  by (simp add: youtubeProfile_def)

lemma youtubeProfile_empty:
  "get json ''items'' = Inr (JArr []) \<Longrightarrow> youtubeProfile json = Inr (JNum (Finite 0))"
  by (simp add: youtubeProfile_def)

lemma youtubeProfile_falsy:
  "get json ''items'' = Inr v \<Longrightarrow> \<not> truthy v \<Longrightarrow> youtubeProfile json = Inr v"
  by (simp add: youtubeProfile_def)

lemma youtubeProfile_null: "youtubeProfile JNull = Inl (TypeError JNull ''items'')"
  by (simp add: youtubeProfile_def)

lemma get_title_truthy:
  "get item ''snippet'' = Inr s \<Longrightarrow> get s ''title'' = Inr t \<Longrightarrow> truthy item"
  by (cases item) auto

lemma get_title_nullish:
  "s = JUndefined \<or> s = JNull \<Longrightarrow> get s ''title'' = Inl (TypeError s ''title'')"
  by auto

lemma get_truthy: "truthy v \<Longrightarrow> \<exists>w. get v k = Inr w"
  by (cases v) auto

subsection \<open>The profile that is built\<close>

lemma build_profile_falsy:
  assumes "youtubeProfile json = Inr yp" and "\<not> truthy yp"
  shows "build_profile body json =
           Inr [(''provider'', JStr ''youtube''), (''_raw'', body), (''_json'', json)]"
  using assms by (simp add: build_profile_def assign_def)

lemma build_profile_truthy:
  assumes "youtubeProfile json = Inr yp" and "truthy yp"
    and "get yp ''id'' = Inr i" and "get yp ''snippet'' = Inr s" and "get s ''title'' = Inr t"
  shows "build_profile body json =
           Inr [(''provider'', JStr ''youtube''), (''id'', i), (''displayName'', t),
                (''_raw'', body), (''_json'', json)]"
  using assms by (simp add: build_profile_def assign_def)

lemma build_profile_no_title:
  assumes "youtubeProfile json = Inr yp" and "truthy yp"
    and "get yp ''snippet'' = Inr s" and "s = JUndefined \<or> s = JNull"
  shows "build_profile body json = Inl (TypeError s ''title'')"
proof -
  obtain i where "get yp ''id'' = Inr i"
    using get_truthy [OF assms(2)] by blast
  with assms(1-3) get_title_nullish [OF assms(4)] show ?thesis
    by (simp add: build_profile_def)
qed

lemma and_then_Inr: "and_then m f = Inr y \<longleftrightarrow> (\<exists>x. m = Inr x \<and> f x = Inr y)"
  by (cases m) simp_all

lemma build_profile_shape:
  assumes "build_profile body json = Inr p"
  shows "p = [(''provider'', JStr ''youtube''), (''_raw'', body), (''_json'', json)]
         \<or> (\<exists>i t. p = [(''provider'', JStr ''youtube''), (''id'', i), (''displayName'', t),
                         (''_raw'', body), (''_json'', json)])"
  using assms
  by (auto simp: build_profile_def and_then_Inr assign_def Let_def split: if_splits)

lemma build_profile_provider:
  "build_profile body json = Inr p \<Longrightarrow> map_of p ''provider'' = Some (JStr ''youtube'')"
  by (drule build_profile_shape) auto

text \<open>
  The exceptions of the block, exactly: reading \<^verbatim>\<open>items\<close> from a parsed body that is
  \<^verbatim>\<open>null\<close>, and reading \<^verbatim>\<open>title\<close> from the missing or \<^verbatim>\<open>null\<close> snippet of a truthy first
  item.
\<close>

lemma and_then_Inl:
  "and_then m f = Inl e \<longleftrightarrow> m = Inl e \<or> (\<exists>x. m = Inr x \<and> f x = Inl e)"
  by (cases m) simp_all

lemma get_Inl: "get v k = Inl e \<longleftrightarrow> (v = JUndefined \<or> v = JNull) \<and> e = TypeError v k"
  by (cases v) auto

lemma get0_truthy: "truthy v \<Longrightarrow> \<exists>w. get0 v = Inr w"
  by (cases v) auto

lemma youtubeProfile_raises:
  "youtubeProfile json = Inl e \<longleftrightarrow>
     (json = JUndefined \<or> json = JNull) \<and> e = TypeError json ''items''"
proof (cases "json = JUndefined \<or> json = JNull")
  case True
  then show ?thesis
    by (auto simp: youtubeProfile_def)
next
  case False
  then obtain items where items: "get json ''items'' = Inr items"
    by (cases json) auto
  show ?thesis
  proof (cases "truthy items")
    case no: False
    with items False show ?thesis
      by (simp add: youtubeProfile_def)
  next
    case yes: True
    obtain len where len: "get items ''length'' = Inr len"
      using get_truthy [OF yes] by blast
    obtain first where first: "get0 items = Inr first"
      using get0_truthy [OF yes] by blast
    from items yes len first False show ?thesis
      by (simp add: youtubeProfile_def)
  qed
qed

lemma build_profile_raises:
  "build_profile body json = Inl e \<longleftrightarrow>
     youtubeProfile json = Inl e
     \<or> (\<exists>yp s. youtubeProfile json = Inr yp \<and> truthy yp \<and> get yp ''snippet'' = Inr s
               \<and> (s = JUndefined \<or> s = JNull) \<and> e = TypeError s ''title'')"
proof (cases "youtubeProfile json")
  case (Inl e')
  then show ?thesis
    by (auto simp: build_profile_def)
next
  case (Inr yp)
  show ?thesis
  proof (cases "truthy yp")
    case False
    with Inr show ?thesis
      by (simp add: build_profile_def)
  next
    case True
    obtain i where i: "get yp ''id'' = Inr i"
      using get_truthy [OF True] by blast
    obtain s where s: "get yp ''snippet'' = Inr s"
      using get_truthy [OF True] by blast
    from Inr True i s show ?thesis
      by (cases "get s ''title''") (auto simp: build_profile_def get_Inl)
  qed
qed

subsection \<open>The calls made to the continuation\<close>

lemma userProfile_fetched:
  assumes "getProtectedResource (priv_profileURL self) accessToken = (err, body, res)"
  shows "userProfile self getProtectedResource JSON_parse accessToken done =
           userProfile_callback JSON_parse done err body"
  using assms by (simp add: userProfile_def)

lemma callback_raised:
  assumes "\<not> truthy err" and "and_then (JSON_parse body) (build_profile body) = Inl e"
  shows "userProfile_callback JSON_parse done err body = [Failure (Caught e)]"
  using assms by (simp add: userProfile_callback_def)

lemma callback_built:
  assumes "\<not> truthy err" and "JSON_parse body = Inr json" and "build_profile body json = Inr p"
  shows "\<exists>again. userProfile_callback JSON_parse done err body = Success p # again
                 \<and> (done (Success p) = None \<longrightarrow> again = [])"
  using assms by (simp add: userProfile_callback_def split: option.split)

lemma callback_Success:
  assumes "Success p \<in> set (userProfile_callback JSON_parse done err body)"
  shows "\<exists>json. JSON_parse body = Inr json \<and> build_profile body json = Inr p"
  using assms
  by (auto simp: userProfile_callback_def and_then_Inr split: if_splits sum.splits option.splits)


subsection \<open>Evaluation on the example inputs\<close>

lemma sample_bodies_distinct:
  "channel_body \<noteq> no_snippet_body" "channel_body \<noteq> empty_items_body"
  "channel_body \<noteq> null_body" "channel_body \<noteq> not_json_body"
  "no_snippet_body \<noteq> empty_items_body" "no_snippet_body \<noteq> null_body"
  "no_snippet_body \<noteq> not_json_body" "empty_items_body \<noteq> null_body"
  "empty_items_body \<noteq> not_json_body" "null_body \<noteq> not_json_body"
  "no_snippet_body \<noteq> channel_body" "empty_items_body \<noteq> channel_body"
  "null_body \<noteq> channel_body" "not_json_body \<noteq> channel_body"
  "empty_items_body \<noteq> no_snippet_body" "null_body \<noteq> no_snippet_body"
  "not_json_body \<noteq> no_snippet_body" "null_body \<noteq> empty_items_body"
  "not_json_body \<noteq> empty_items_body" "not_json_body \<noteq> null_body"
  by (simp_all add: channel_body_def no_snippet_body_def empty_items_body_def null_body_def
      not_json_body_def)

lemma JSON_parse_sample_simps:
  "JSON_parse_sample channel_body = Inr channel_json"
  "JSON_parse_sample no_snippet_body = Inr no_snippet_json"
  "JSON_parse_sample empty_items_body = Inr empty_items_json"
  "JSON_parse_sample null_body = Inr JNull"
  "JSON_parse_sample not_json_body =
     Inl (SyntaxError ''Unexpected token o in JSON at position 1'')"
  by (simp_all add: JSON_parse_sample_def sample_bodies_distinct)

lemma fetch_ok_simps: "fetch_ok body url accessToken = (JNull, body, JObj [(''statusCode'', JNum (Finite 200))])"
  by (simp add: fetch_ok_def)

section \<open>The claims about the profile retrieval\<close>

text \<open>
  C2. Whenever the protected-resource fetch reports an error (a truthy \<^verbatim>\<open>err\<close>),
  \<^verbatim>\<open>userProfile\<close> calls \<^verbatim>\<open>done\<close> exactly once, with an \<^verbatim>\<open>InternalOAuthError\<close> that wraps that
  error, and never with a profile.
\<close>

theorem userProfile_transport_error:
  assumes "getProtectedResource (priv_profileURL self) accessToken = (err, body, res)"
    and "truthy err"
  shows "userProfile self getProtectedResource JSON_parse accessToken done =
           [Failure (InternalOAuthError ''failed to fetch user profile'' err)]
         \<and> (\<forall>p. Success p \<notin> set (userProfile self getProtectedResource JSON_parse accessToken done))"
  using assms by (simp add: userProfile_def userProfile_callback_def)

theorem userProfile_transport_error_witness:
  "fetch_failed transport_error (priv_profileURL youtube_strategy) access_token =
     (transport_error, JNull, JNull)
   \<and> truthy transport_error
   \<and> userProfile youtube_strategy (fetch_failed transport_error) JSON_parse_sample access_token
        done_returns =
      [Failure (InternalOAuthError ''failed to fetch user profile'' transport_error)]"
proof -
  have fetch: "fetch_failed transport_error (priv_profileURL youtube_strategy) access_token =
     (transport_error, JNull, JNull)"
    by (simp add: fetch_failed_def)
  have err: "truthy transport_error"
    by (simp add: transport_error_def)
  from userProfile_transport_error
         [where getProtectedResource = "fetch_failed transport_error"
            and self = youtube_strategy and accessToken = access_token
            and err = transport_error and body = JNull and res = JNull
            and JSON_parse = JSON_parse_sample and ?done = done_returns,
          OF fetch err]
    fetch err
  show ?thesis
    by simp
qed

text \<open>
  C1, as amended. When the fetch succeeds, the body parses, its item list is present and
  non-empty, and the first item has a \<^verbatim>\<open>snippet\<close> whose \<^verbatim>\<open>title\<close> can be read (the snippet is
  neither \<^verbatim>\<open>undefined\<close> nor \<^verbatim>\<open>null\<close>), the first call of \<^verbatim>\<open>done\<close> delivers the profile with
  provider \<^verbatim>\<open>youtube\<close>, the first item's \<^verbatim>\<open>id\<close>, its snippet's \<^verbatim>\<open>title\<close> as \<^verbatim>\<open>displayName\<close>, the
  body as \<^verbatim>\<open>_raw\<close> and the parsed value as \<^verbatim>\<open>_json\<close>; it is the only call when \<^verbatim>\<open>done\<close>
  returns normally.
\<close>

theorem userProfile_first_item:
  assumes fetch: "getProtectedResource (priv_profileURL self) accessToken = (err, body, res)"
    and ok: "\<not> truthy err"
    and parse: "JSON_parse body = Inr json"
    and items: "items_of json = Some (JArr (item # rest))"
    and ident: "get item ''id'' = Inr i"
    and snippet: "get item ''snippet'' = Inr s"
    and title: "get s ''title'' = Inr t"
  shows "\<exists>again.
           userProfile self getProtectedResource JSON_parse accessToken done =
             Success [(''provider'', JStr ''youtube''), (''id'', i), (''displayName'', t),
                      (''_raw'', body), (''_json'', json)] # again
           \<and> (done (Success [(''provider'', JStr ''youtube''), (''id'', i), (''displayName'', t),
                              (''_raw'', body), (''_json'', json)]) = None
                \<longrightarrow> again = [])"
proof -
  have yp: "youtubeProfile json = Inr item"
    using items by (simp add: get_items_of youtubeProfile_first)
  have tr: "truthy item"
    using snippet title by (rule get_title_truthy)
  have "build_profile body json =
          Inr [(''provider'', JStr ''youtube''), (''id'', i), (''displayName'', t),
               (''_raw'', body), (''_json'', json)]"
    by (rule build_profile_truthy [OF yp tr ident snippet title])
  from callback_built [where JSON_parse = JSON_parse and ?done = "done", OF ok parse this]
  show ?thesis
    by (simp add: userProfile_fetched [where getProtectedResource = getProtectedResource, OF fetch])
qed

theorem userProfile_first_item_witness:
  "JSON_parse_sample channel_body = Inr channel_json
   \<and> items_of channel_json =
       Some (JArr [JObj [(''id'', JStr ''abc''),
                         (''snippet'', JObj [(''title'', JStr ''My Channel'')])]])
   \<and> userProfile youtube_strategy (fetch_ok channel_body) JSON_parse_sample access_token
        done_returns =
      [Success [(''provider'', JStr ''youtube''), (''id'', JStr ''abc''),
                (''displayName'', JStr ''My Channel''), (''_raw'', channel_body),
                (''_json'', channel_json)]]"
proof -
  have parse: "JSON_parse_sample channel_body = Inr channel_json"
    by (rule JSON_parse_sample_simps)
  have items: "items_of channel_json =
       Some (JArr (JObj [(''id'', JStr ''abc''),
                         (''snippet'', JObj [(''title'', JStr ''My Channel'')])] # []))"
    by (simp add: items_of_def channel_json_def)
  have ident: "get (JObj [(''id'', JStr ''abc''),
                  (''snippet'', JObj [(''title'', JStr ''My Channel'')])]) ''id'' = Inr (JStr ''abc'')"
    by (simp add: lookup_def)
  have snippet: "get (JObj [(''id'', JStr ''abc''),
                  (''snippet'', JObj [(''title'', JStr ''My Channel'')])]) ''snippet'' =
                 Inr (JObj [(''title'', JStr ''My Channel'')])"
    by (simp add: lookup_def)
  have title: "get (JObj [(''title'', JStr ''My Channel'')]) ''title'' = Inr (JStr ''My Channel'')"
    by (simp add: lookup_def)
  have ok: "\<not> truthy JNull"
    by simp
  have fetch: "fetch_ok channel_body (priv_profileURL youtube_strategy) access_token =
      (JNull, channel_body, JObj [(''statusCode'', JNum (Finite 200))])"
    by (rule fetch_ok_simps)
  from userProfile_first_item
         [where getProtectedResource = "fetch_ok channel_body" and self = youtube_strategy
            and accessToken = access_token and JSON_parse = JSON_parse_sample
            and ?done = done_returns,
          OF fetch ok parse items ident snippet title]
  have "userProfile youtube_strategy (fetch_ok channel_body) JSON_parse_sample access_token
        done_returns =
      [Success [(''provider'', JStr ''youtube''), (''id'', JStr ''abc''),
                (''displayName'', JStr ''My Channel''), (''_raw'', channel_body),
                (''_json'', channel_json)]]"
    by (auto simp: done_returns_def)
  with parse items show ?thesis
    by simp
qed

text \<open>
  C1 as it was stated fails: the body \<^verbatim>\<open>{"items":[{"id":"abc"}]}\<close> parses and has a
  non-empty item list, yet reading the title of the missing snippet throws, and \<^verbatim>\<open>done\<close>
  receives that TypeError instead of a profile.
\<close>

theorem userProfile_first_item_counterexample:
  "JSON_parse_sample no_snippet_body = Inr no_snippet_json
   \<and> items_of no_snippet_json = Some (JArr [JObj [(''id'', JStr ''abc'')]])
   \<and> userProfile youtube_strategy (fetch_ok no_snippet_body) JSON_parse_sample access_token
        done_returns =
      [Failure (Caught (TypeError JUndefined ''title''))]"
  by (simp add: JSON_parse_sample_simps items_of_def no_snippet_json_def userProfile_def
      fetch_ok_def userProfile_callback_def build_profile_def youtubeProfile_def lookup_def
      assign_def)


text \<open>
  C3. When the fetch succeeds and the body is not valid JSON (\<^verbatim>\<open>JSON.parse\<close> throws \<open>e\<close>), or
  an exception \<open>e\<close> is thrown while the fields of the parsed body are read, as it is when
  the item list is non-empty and its first item is truthy but has no snippet (or a
  \<^verbatim>\<open>null\<close> one), then \<^verbatim>\<open>done\<close> is called exactly once, with that exception as it was thrown,
  and never with a profile.
\<close>

theorem userProfile_parse_error:
  assumes fetch: "getProtectedResource (priv_profileURL self) accessToken = (err, body, res)"
    and ok: "\<not> truthy err"
    and raised:
      "JSON_parse body = Inl e
       \<or> (\<exists>json. JSON_parse body = Inr json \<and> build_profile body json = Inl e)
       \<or> (\<exists>json item rest snippet.
             JSON_parse body = Inr json \<and> items_of json = Some (JArr (item # rest))
             \<and> truthy item \<and> get item ''snippet'' = Inr snippet
             \<and> (snippet = JUndefined \<or> snippet = JNull) \<and> e = TypeError snippet ''title'')"
  shows "userProfile self getProtectedResource JSON_parse accessToken done =
           [Failure (Caught e)]
         \<and> (\<forall>p. Success p \<notin> set (userProfile self getProtectedResource JSON_parse accessToken done))"
proof -
  from raised consider
      (unparsed) "JSON_parse body = Inl e"
    | (fields) json where "JSON_parse body = Inr json" and "build_profile body json = Inl e"
    | (no_snippet) json item rest snippet where
        "JSON_parse body = Inr json" and "items_of json = Some (JArr (item # rest))"
        and "truthy item" and "get item ''snippet'' = Inr snippet"
        and "snippet = JUndefined \<or> snippet = JNull" and "e = TypeError snippet ''title''"
    by blast
  then have "and_then (JSON_parse body) (build_profile body) = Inl e"
  proof cases
    case unparsed
    then show ?thesis by simp
  next
    case fields
    then show ?thesis by simp
  next
    case no_snippet
    have "youtubeProfile json = Inr item"
      using no_snippet(2) by (simp add: get_items_of youtubeProfile_first)
    from build_profile_no_title [OF this no_snippet(3,4,5)] no_snippet(1,6) show ?thesis
      by simp
  qed
  from callback_raised [where JSON_parse = JSON_parse and ?done = "done", OF ok this]
  show ?thesis
    by (simp add: userProfile_fetched [where getProtectedResource = getProtectedResource, OF fetch])
qed

theorem userProfile_parse_error_witness:
  "JSON_parse_sample not_json_body =
     Inl (SyntaxError ''Unexpected token o in JSON at position 1'')
   \<and> userProfile youtube_strategy (fetch_ok not_json_body) JSON_parse_sample access_token
        done_returns =
      [Failure (Caught (SyntaxError ''Unexpected token o in JSON at position 1''))]
   \<and> JSON_parse_sample no_snippet_body = Inr no_snippet_json
   \<and> items_of no_snippet_json = Some (JArr [JObj [(''id'', JStr ''abc'')]])
   \<and> get (JObj [(''id'', JStr ''abc'')]) ''snippet'' = Inr JUndefined
   \<and> userProfile youtube_strategy (fetch_ok no_snippet_body) JSON_parse_sample access_token
        done_returns =
      [Failure (Caught (TypeError JUndefined ''title''))]"
proof -
  have ok: "\<not> truthy JNull"
    by simp
  have fetch1: "fetch_ok not_json_body (priv_profileURL youtube_strategy) access_token =
      (JNull, not_json_body, JObj [(''statusCode'', JNum (Finite 200))])"
    by (rule fetch_ok_simps)
  have parse1: "JSON_parse_sample not_json_body =
     Inl (SyntaxError ''Unexpected token o in JSON at position 1'')"
    by (rule JSON_parse_sample_simps)
  have first: "userProfile youtube_strategy (fetch_ok not_json_body) JSON_parse_sample
        access_token done_returns =
      [Failure (Caught (SyntaxError ''Unexpected token o in JSON at position 1''))]"
    using userProfile_parse_error
         [where getProtectedResource = "fetch_ok not_json_body" and self = youtube_strategy
            and accessToken = access_token and JSON_parse = JSON_parse_sample
            and ?done = done_returns
            and e = "SyntaxError ''Unexpected token o in JSON at position 1''",
          OF fetch1 ok]
      parse1
    by simp
  have fetch2: "fetch_ok no_snippet_body (priv_profileURL youtube_strategy) access_token =
      (JNull, no_snippet_body, JObj [(''statusCode'', JNum (Finite 200))])"
    by (rule fetch_ok_simps)
  have parse2: "JSON_parse_sample no_snippet_body = Inr no_snippet_json"
    by (rule JSON_parse_sample_simps)
  have items: "items_of no_snippet_json = Some (JArr [JObj [(''id'', JStr ''abc'')]])"
    by (simp add: items_of_def no_snippet_json_def)
  have sn: "get (JObj [(''id'', JStr ''abc'')]) ''snippet'' = Inr JUndefined"
    by (simp add: lookup_def)
  have "JSON_parse_sample no_snippet_body = Inr no_snippet_json
        \<and> items_of no_snippet_json = Some (JArr (JObj [(''id'', JStr ''abc'')] # []))
        \<and> truthy (JObj [(''id'', JStr ''abc'')])
        \<and> get (JObj [(''id'', JStr ''abc'')]) ''snippet'' = Inr JUndefined
        \<and> (JUndefined = JUndefined \<or> JUndefined = JNull)
        \<and> TypeError JUndefined ''title'' = TypeError JUndefined ''title''"
    using parse2 items sn by simp
  then have second: "userProfile youtube_strategy (fetch_ok no_snippet_body) JSON_parse_sample
        access_token done_returns =
      [Failure (Caught (TypeError JUndefined ''title''))]"
    using userProfile_parse_error
         [where getProtectedResource = "fetch_ok no_snippet_body" and self = youtube_strategy
            and accessToken = access_token and JSON_parse = JSON_parse_sample
            and ?done = done_returns and e = "TypeError JUndefined ''title''",
          OF fetch2 ok]
    by blast
  from first second parse1 parse2 items sn show ?thesis
    by simp
qed

text \<open>
  C4, as amended. When the fetch succeeds, the body parses to a value other than \<^verbatim>\<open>null\<close>
  (\<^verbatim>\<open>JSON.parse\<close> never returns \<^verbatim>\<open>undefined\<close>), and its item list is absent or empty, the
  first call of \<^verbatim>\<open>done\<close> delivers a profile that holds exactly \<^verbatim>\<open>provider\<close>, \<^verbatim>\<open>_raw\<close> and
  \<^verbatim>\<open>_json\<close>, with no \<^verbatim>\<open>id\<close> and no \<^verbatim>\<open>displayName\<close>; it is the only call when \<^verbatim>\<open>done\<close> returns
  normally.
\<close>

theorem userProfile_empty_profile:
  assumes fetch: "getProtectedResource (priv_profileURL self) accessToken = (err, body, res)"
    and ok: "\<not> truthy err"
    and parse: "JSON_parse body = Inr json"
    and not_null: "json \<noteq> JNull" "json \<noteq> JUndefined"
    and items: "items_of json = None \<or> items_of json = Some (JArr [])"
  shows "\<exists>p again.
           userProfile self getProtectedResource JSON_parse accessToken done = Success p # again
           \<and> p = [(''provider'', JStr ''youtube''), (''_raw'', body), (''_json'', json)]
           \<and> map_of p ''id'' = None \<and> map_of p ''displayName'' = None
           \<and> (done (Success p) = None \<longrightarrow> again = [])"
proof -
  have "\<exists>yp. youtubeProfile json = Inr yp \<and> \<not> truthy yp" (is ?falsy)
    using items
  proof
    assume "items_of json = None"
    then have "get json ''items'' = Inr JUndefined"
      using not_null by (rule get_no_items)
    then have "youtubeProfile json = Inr JUndefined"
      by (simp add: youtubeProfile_falsy)
    then show ?falsy by simp
  next
    assume "items_of json = Some (JArr [])"
    then have "youtubeProfile json = Inr (JNum (Finite 0))"
      by (simp add: get_items_of youtubeProfile_empty)
    then show ?falsy by simp
  qed
  then obtain yp where "youtubeProfile json = Inr yp" and "\<not> truthy yp"
    by blast
  then have "build_profile body json =
     Inr [(''provider'', JStr ''youtube''), (''_raw'', body), (''_json'', json)]"
    by (rule build_profile_falsy)
  from callback_built [where JSON_parse = JSON_parse and ?done = "done", OF ok parse this]
  show ?thesis
    by (simp add: userProfile_fetched [where getProtectedResource = getProtectedResource, OF fetch])
qed

theorem userProfile_empty_profile_witness:
  "JSON_parse_sample empty_items_body = Inr empty_items_json
   \<and> empty_items_json \<noteq> JNull
   \<and> items_of empty_items_json = Some (JArr [])
   \<and> userProfile youtube_strategy (fetch_ok empty_items_body) JSON_parse_sample access_token
        done_returns =
      [Success [(''provider'', JStr ''youtube''), (''_raw'', empty_items_body),
                (''_json'', empty_items_json)]]"
proof -
  have ok: "\<not> truthy JNull"
    by simp
  have fetch: "fetch_ok empty_items_body (priv_profileURL youtube_strategy) access_token =
      (JNull, empty_items_body, JObj [(''statusCode'', JNum (Finite 200))])"
    by (rule fetch_ok_simps)
  have parse: "JSON_parse_sample empty_items_body = Inr empty_items_json"
    by (rule JSON_parse_sample_simps)
  have not_null: "empty_items_json \<noteq> JNull" "empty_items_json \<noteq> JUndefined"
    by (simp_all add: empty_items_json_def)
  have items: "items_of empty_items_json = Some (JArr [])"
    by (simp add: items_of_def empty_items_json_def)
  then have items': "items_of empty_items_json = None \<or> items_of empty_items_json = Some (JArr [])"
    by simp
  from userProfile_empty_profile
         [where getProtectedResource = "fetch_ok empty_items_body" and self = youtube_strategy
            and accessToken = access_token and JSON_parse = JSON_parse_sample
            and ?done = done_returns,
          OF fetch ok parse not_null items']
  have "userProfile youtube_strategy (fetch_ok empty_items_body) JSON_parse_sample access_token
        done_returns =
      [Success [(''provider'', JStr ''youtube''), (''_raw'', empty_items_body),
                (''_json'', empty_items_json)]]"
    by (auto simp: done_returns_def)
  with parse not_null items show ?thesis
    by simp
qed

text \<open>
  C4 as it was stated fails: the body \<^verbatim>\<open>null\<close> parses as JSON and has no item list, yet
  reading \<^verbatim>\<open>items\<close> from \<^verbatim>\<open>null\<close> throws, and \<^verbatim>\<open>done\<close> receives that TypeError instead of a
  profile.
\<close>

theorem userProfile_empty_profile_counterexample:
  "JSON_parse_sample null_body = Inr JNull
   \<and> items_of JNull = None
   \<and> userProfile youtube_strategy (fetch_ok null_body) JSON_parse_sample access_token
        done_returns =
      [Failure (Caught (TypeError JNull ''items''))]"
  by (simp add: JSON_parse_sample_simps items_of_def userProfile_def fetch_ok_def
      userProfile_callback_def build_profile_def youtubeProfile_def)

text \<open>
  C9. Every profile that \<^verbatim>\<open>userProfile\<close> hands to \<^verbatim>\<open>done\<close> has the provider \<^verbatim>\<open>youtube\<close>, whatever
  the fetch returned and whatever the body parses to.
\<close>

theorem userProfile_provider:
  assumes "Success p \<in> set (userProfile self getProtectedResource JSON_parse accessToken done)"
  shows "map_of p ''provider'' = Some (JStr ''youtube'')"
proof -
  obtain err body res
    where fetch: "getProtectedResource (priv_profileURL self) accessToken = (err, body, res)"
    by (cases "getProtectedResource (priv_profileURL self) accessToken") blast
  from assms
  have "Success p \<in> set (userProfile_callback JSON_parse done err body)"
    by (simp add: userProfile_fetched [where getProtectedResource = getProtectedResource, OF fetch])
  then obtain json where "build_profile body json = Inr p"
    using callback_Success by blast
  then show ?thesis
    by (rule build_profile_provider)
qed

theorem userProfile_provider_witness:
  "Success [(''provider'', JStr ''youtube''), (''_raw'', empty_items_body),
            (''_json'', empty_items_json)]
     \<in> set (userProfile youtube_strategy (fetch_ok empty_items_body) JSON_parse_sample
              access_token done_returns)
   \<and> map_of [(''provider'', JStr ''youtube''), (''_raw'', empty_items_body),
              (''_json'', empty_items_json)] ''provider'' = Some (JStr ''youtube'')"
proof -
  have produced:
    "Success [(''provider'', JStr ''youtube''), (''_raw'', empty_items_body),
              (''_json'', empty_items_json)]
       \<in> set (userProfile youtube_strategy (fetch_ok empty_items_body) JSON_parse_sample
                access_token done_returns)"
    by (simp add: JSON_parse_sample_simps userProfile_def fetch_ok_def userProfile_callback_def
        build_profile_def youtubeProfile_def empty_items_json_def lookup_def assign_def
        done_returns_def)
  from userProfile_provider [OF produced] produced show ?thesis
    by simp
qed


section \<open>Properties of the field-name conversion\<close>

lemma map_member_own:
  assumes "f \<notin> fst ` set Object_prototype"
  shows "map_member f = map_of field_map f"
proof -
  from assms have "map_of Object_prototype f = None"
    by (simp add: map_of_eq_None_iff)
  then show ?thesis
    by (simp add: map_member_def map_add_def split: option.split)
qed

lemma convert_field_own:
  "f \<notin> fst ` set Object_prototype \<Longrightarrow>
   convert_field pushed f = pushed @ map Str (provider_fields f)"
  by (simp add: convert_field_def map_member_own field_map_def provider_fields_def)

lemma foldl_convert_field:
  "\<forall>f \<in> set fs. f \<notin> fst ` set Object_prototype \<Longrightarrow>
   foldl convert_field pushed fs = pushed @ map Str (concat (map provider_fields fs))"
  by (induction fs arbitrary: pushed) (simp_all add: convert_field_own)

lemma to_string_Str: "map (to_string \<circ> Str) xs = xs"
  by (induction xs) simp_all

lemmas convertProfileFields_eval =
  convertProfileFields_def convert_field_def map_member_def field_map_def Object_prototype_def

lemma convertProfileFields_bogus: "convertProfileFields [''bogus''] = JStr ''''"
  by (simp add: convertProfileFields_eval)

text \<open>
  C7, as amended. For every sequence of requested names, none of them a member inherited
  from \<^verbatim>\<open>Object.prototype\<close>, the result is one string: the provider field names of the
  specification's table, in the order of the request, with \<^verbatim>\<open>name\<close> expanded in place to
  \<^verbatim>\<open>last_name\<close> then \<^verbatim>\<open>first_name\<close>, joined by commas.
\<close>

theorem convertProfileFields_joined:
  assumes "\<forall>f \<in> set profileFields. f \<notin> fst ` set Object_prototype"
  shows "convertProfileFields profileFields =
           JStr (join '','' (concat (map provider_fields profileFields)))"
  using assms by (simp add: convertProfileFields_def foldl_convert_field to_string_Str)

theorem convertProfileFields_joined_witness:
  "''id'' \<notin> fst ` set Object_prototype \<and> ''name'' \<notin> fst ` set Object_prototype
   \<and> ''username'' \<notin> fst ` set Object_prototype
   \<and> convertProfileFields [''id'', ''name'', ''username''] =
       JStr ''id,last_name,first_name,username''"
proof -
  have names: "''id'' \<notin> fst ` set Object_prototype" "''name'' \<notin> fst ` set Object_prototype"
    "''username'' \<notin> fst ` set Object_prototype"
    by (simp_all add: Object_prototype_def)
  then have "\<forall>f \<in> set [''id'', ''name'', ''username'']. f \<notin> fst ` set Object_prototype"
    by simp
  from convertProfileFields_joined [OF this] names show ?thesis
    by (simp add: provider_fields_def)
qed

text \<open>
  C7 as it was stated fails: the result is a string, not a sequence. For the request
  \<^verbatim>\<open>['id','name','username']\<close> it is \<^verbatim>\<open>'id,last_name,first_name,username'\<close>.
\<close>

theorem convertProfileFields_joined_counterexample:
  "convertProfileFields [''id'', ''name'', ''username''] =
     JStr ''id,last_name,first_name,username''
   \<and> convertProfileFields [''id'', ''name'', ''username''] \<noteq>
     JArr [JStr ''id'', JStr ''last_name'', JStr ''first_name'', JStr ''username'']"
  by (simp add: convertProfileFields_eval)

text \<open>
  C8. The name \<^verbatim>\<open>constructor\<close> is outside the recognized set, but \<^verbatim>\<open>map['constructor']\<close> is
  the inherited \<^verbatim>\<open>Object\<close> function and not \<^verbatim>\<open>undefined\<close>, so the name is not dropped: the
  function is pushed and joined into the result.
\<close>

theorem convertProfileFields_inherited_name:
  "''constructor'' \<notin> {''id'', ''username'', ''displayName'', ''name''}
   \<and> convertProfileFields [''constructor''] = JStr ''function Object() { [native code] }''"
  by (simp add: convertProfileFields_eval)


section \<open>Properties of the authorization parameters\<close>

lemma distinct_cond_assign:
  "distinct (map fst params) \<Longrightarrow> distinct (map fst (if c then assign params q v else params))"
  by (simp add: assign_def distinct_update)

lemma authorizationParams_distinct: "distinct (map fst (authorizationParams options))"
  unfolding authorizationParams_def Let_def
  by (intro distinct_cond_assign) simp

lemma map_of_cond_assign:
  "map_of (if c then assign params q v else params) q' =
     (if c \<and> q' = q then Some v else map_of params q')"
  by (auto simp: assign_def update_conv')

text \<open>The entry under a key, read off the chain of conditional assignments (last first).\<close>

lemma authorizationParams_entries:
  "map_of (authorizationParams options) q =
    (if truthy (lookup options ''openIDRealm'') \<and> q = ''openid.realm''
     then Some (lookup options ''openIDRealm'')
     else if truthy (lookup options ''requestVisibleActions'') \<and> q = ''request_visible_actions''
     then Some (lookup options ''requestVisibleActions'')
     else if truthy (lookup options ''display'') \<and> q = ''display''
     then Some (lookup options ''display'')
     else if truthy (or_else (lookup options ''hostedDomain'') (lookup options ''hd'')) \<and> q = ''hd''
     then Some (or_else (lookup options ''hostedDomain'') (lookup options ''hd''))
     else if truthy (lookup options ''userID'') \<and> q = ''user_id''
     then Some (lookup options ''userID'')
     else if truthy (lookup options ''loginHint'') \<and> q = ''login_hint''
     then Some (lookup options ''loginHint'')
     else if truthy (lookup options ''prompt'') \<and> q = ''prompt''
     then Some (lookup options ''prompt'')
     else if truthy (lookup options ''approvalPrompt'') \<and> q = ''approval_prompt''
     then Some (lookup options ''approvalPrompt'')
     else if truthy (lookup options ''accessType'') \<and> q = ''access_type''
     then Some (lookup options ''accessType'')
     else None)"
  by (simp only: authorizationParams_def Let_def map_of_cond_assign map_of.simps)

lemma truthy_lookup:
  "all_truthy options \<Longrightarrow> truthy (lookup options k) = (map_of options k \<noteq> None)"
  by (auto simp: all_truthy_def lookup_def split: option.splits)

lemma Some_lookup:
  "map_of options k \<noteq> None \<Longrightarrow> Some (lookup options k) = map_of options k"
  by (auto simp: lookup_def)

lemma authorizationParams_map:
  assumes "all_truthy options"
  shows "map_of (authorizationParams options) q = documented_params options q"
proof -
  note set = truthy_lookup [OF assms] Some_lookup or_else_def
  consider "q = ''access_type''" | "q = ''approval_prompt''" | "q = ''prompt''"
    | "q = ''login_hint''" | "q = ''user_id''" | "q = ''hd''" | "q = ''display''"
    | "q = ''request_visible_actions''" | "q = ''openid.realm''"
    | "q \<notin> {''access_type'', ''approval_prompt'', ''prompt'', ''login_hint'', ''user_id'',
             ''hd'', ''display'', ''request_visible_actions'', ''openid.realm''}"
    by auto
  then show ?thesis
  proof cases
    case 1 then show ?thesis
      by (auto simp: authorizationParams_entries documented_params_def set)
  next
    case 2 then show ?thesis
      by (auto simp: authorizationParams_entries documented_params_def set)
  next
    case 3 then show ?thesis
      by (auto simp: authorizationParams_entries documented_params_def set)
  next
    case 4 then show ?thesis
      by (auto simp: authorizationParams_entries documented_params_def set)
  next
    case 5 then show ?thesis
      by (auto simp: authorizationParams_entries documented_params_def set)
  next
    case 6 then show ?thesis
      by (auto simp: authorizationParams_entries documented_params_def set)
  next
    case 7 then show ?thesis
      by (auto simp: authorizationParams_entries documented_params_def set)
  next
    case 8 then show ?thesis
      by (auto simp: authorizationParams_entries documented_params_def set)
  next
    case 9 then show ?thesis
      by (auto simp: authorizationParams_entries documented_params_def set)
  next
    case 10 then show ?thesis
      by (simp add: authorizationParams_entries documented_params_def)
  qed
qed

lemmas authorizationParams_eval = authorizationParams_def lookup_def or_else_def assign_def

lemma all_truthy_both_domains: "all_truthy both_domains_options"
  by (auto simp: all_truthy_def both_domains_options_def split: if_splits)

text \<open>
  C5. For every options object whose set fields all hold truthy values, the returned
  object has exactly the documented entries: under each renamed key the value of the
  option it comes from, when that option is set (\<^verbatim>\<open>hd\<close> from \<^verbatim>\<open>hostedDomain\<close>, else from
  \<^verbatim>\<open>hd\<close>), no key twice and no other key. Options outside the recognized set change
  nothing. For the empty options object the result is empty.
\<close>

theorem authorizationParams_documented:
  assumes "all_truthy options"
  shows "map_of (authorizationParams options) = documented_params options
         \<and> distinct (map fst (authorizationParams options))
         \<and> authorizationParams [] = []"
proof (intro conjI)
  show "map_of (authorizationParams options) = documented_params options"
    by (rule ext) (rule authorizationParams_map [OF assms])
  show "distinct (map fst (authorizationParams options))"
    by (rule authorizationParams_distinct)
  show "authorizationParams [] = []"
    by (simp add: authorizationParams_eval)
qed

theorem authorizationParams_documented_witness:
  "all_truthy both_domains_options
   \<and> map_of (authorizationParams both_domains_options) ''access_type'' = Some (JStr ''offline'')
   \<and> map_of (authorizationParams both_domains_options) ''hd'' = Some (JStr ''example.org'')
   \<and> map_of (authorizationParams both_domains_options) ''prompt'' = None
   \<and> distinct (map fst (authorizationParams both_domains_options))"
  using authorizationParams_documented [OF all_truthy_both_domains] all_truthy_both_domains
  by (simp add: documented_params_def both_domains_options_def)

text \<open>
  C6, as amended. For every options object in which both \<^verbatim>\<open>hostedDomain\<close> and \<^verbatim>\<open>hd\<close> are
  supplied and the value of \<^verbatim>\<open>hostedDomain\<close> is truthy, the \<^verbatim>\<open>hd\<close> entry of the result is the
  value of \<^verbatim>\<open>hostedDomain\<close>.
\<close>

theorem authorizationParams_hostedDomain:
  assumes "map_of options ''hostedDomain'' = Some d" and "map_of options ''hd'' = Some h"
    and "truthy d"
  shows "map_of (authorizationParams options) ''hd'' = Some d"
  using assms by (simp add: authorizationParams_entries or_else_def lookup_def)

theorem authorizationParams_hostedDomain_witness:
  "map_of both_domains_options ''hostedDomain'' = Some (JStr ''example.org'')
   \<and> map_of both_domains_options ''hd'' = Some (JStr ''example.com'')
   \<and> truthy (JStr ''example.org'')
   \<and> map_of (authorizationParams both_domains_options) ''hd'' = Some (JStr ''example.org'')"
proof -
  have d: "map_of both_domains_options ''hostedDomain'' = Some (JStr ''example.org'')"
    and h: "map_of both_domains_options ''hd'' = Some (JStr ''example.com'')"
    by (simp_all add: both_domains_options_def)
  have t: "truthy (JStr ''example.org'')"
    by simp
  from authorizationParams_hostedDomain [OF d h t] d h t show ?thesis
    by simp
qed

text \<open>
  C6 as it was stated fails: with \<^verbatim>\<open>hostedDomain\<close> supplied as the empty string and \<^verbatim>\<open>hd\<close> as
  \<^verbatim>\<open>example.com\<close>, the \<^verbatim>\<open>hd\<close> entry is the value of \<^verbatim>\<open>hd\<close>, not that of \<^verbatim>\<open>hostedDomain\<close>.
\<close>

theorem authorizationParams_hostedDomain_counterexample:
  "map_of empty_hostedDomain_options ''hostedDomain'' = Some (JStr '''')
   \<and> map_of empty_hostedDomain_options ''hd'' = Some (JStr ''example.com'')
   \<and> authorizationParams empty_hostedDomain_options = [(''hd'', JStr ''example.com'')]
   \<and> map_of (authorizationParams empty_hostedDomain_options) ''hd'' \<noteq> Some (JStr '''')"
  by (simp add: empty_hostedDomain_options_def authorizationParams_eval)


section \<open>Properties of the constructor\<close>

lemma truthy_or_else: "truthy d \<Longrightarrow> truthy (or_else a d)"
  by (simp add: or_else_def)

lemma own_write_prop:
  "map_of (own (write_prop obj k v)) k' =
     (if can_write obj k \<and> k' = k then Some (v, True) else map_of (own obj) k')"
  by (simp add: write_prop_def update_conv')

lemma inherited_write_prop: "inherited (write_prop obj k v) = inherited obj"
  by (simp add: write_prop_def)

lemma extensible_write_prop: "extensible (write_prop obj k v) = extensible obj"
  by (simp add: write_prop_def)

lemma can_write_write_prop:
  "k' \<noteq> k \<Longrightarrow> can_write (write_prop obj k v) k' = can_write obj k'"
  by (simp add: can_write_def own_write_prop inherited_write_prop extensible_write_prop
      cong: option.case_cong)

lemma read_prop_write_prop:
  "read_prop (write_prop obj k v) k' =
     (if can_write obj k \<and> k' = k then v else read_prop obj k')"
  by (simp add: read_prop_def own_write_prop inherited_write_prop cong: option.case_cong)

lemma write_prop_dropped: "\<not> can_write obj k \<Longrightarrow> write_prop obj k v = obj"
  by (simp add: write_prop_def)

lemma objs_default_option:
  "objs (default_option st r k d) =
     (objs st)(r := write_prop (objs st r) k (or_else (read_prop (objs st r) k) d))"
  by (simp add: default_option_def)

lemma store_after_Strategy:
  "fst (Strategy OAuth2Strategy st (Some r) verify) =
     default_option
       (default_option
          (default_option st r ''authorizationURL''
             (JStr ''https://accounts.google.com/o/oauth2/auth''))
          r ''tokenURL'' (JStr ''https://accounts.google.com/o/oauth2/token''))
       r ''scope'' (JArr [JStr ''https://www.googleapis.com/auth/youtube.readonly''])"
  by (simp add: Strategy_def options_or_new_def Let_def split: option.split)

lemma result_of_Strategy:
  "snd (Strategy OAuth2Strategy st (Some r) verify) =
     (let st' = fst (Strategy OAuth2Strategy st (Some r) verify)
      in case OAuth2Strategy (objs st' r) verify of
           Some e \<Rightarrow> Inl e
         | None \<Rightarrow>
             Inr \<lparr>name = ''youtube'',
                  priv_profileURL =
                    or_else (read_prop (objs st' r) ''profileURL'')
                      (JStr ''https://www.googleapis.com/youtube/v3/channels?part=snippet&mine=true'')\<rparr>)"
  by (simp add: Strategy_def options_or_new_def Let_def split: option.split)

lemma default_option_dropped:
  "\<not> can_write (objs st r) k \<Longrightarrow> default_option st r k d = st"
  by (simp add: default_option_def write_prop_dropped)

text \<open>
  C10, as amended. Constructing a strategy from the options object at address \<open>r\<close>, on
  which the assignments to \<^verbatim>\<open>authorizationURL\<close>, \<^verbatim>\<open>tokenURL\<close> and \<^verbatim>\<open>scope\<close> can take effect,
  writes to that object in the store: afterwards each of the three is a writable own
  property holding the value that was read from the object (its own or an inherited one)
  when that was truthy and the provider's default otherwise, so all three are truthy. The
  object's other own properties, what it inherits, its extensibility and every other
  object are unchanged. This holds whether or not the base constructor throws.
\<close>

theorem Strategy_writes_options:
  assumes "can_write (objs st r) ''authorizationURL''"
    and "can_write (objs st r) ''tokenURL''"
    and "can_write (objs st r) ''scope''"
  shows
  "let st' = fst (Strategy OAuth2Strategy st (Some r) verify);
       old = objs st r;
       new = objs st' r
   in map_of (own new) ''authorizationURL'' =
        Some (or_else (read_prop old ''authorizationURL'')
               (JStr ''https://accounts.google.com/o/oauth2/auth''), True)
      \<and> map_of (own new) ''tokenURL'' =
        Some (or_else (read_prop old ''tokenURL'')
               (JStr ''https://accounts.google.com/o/oauth2/token''), True)
      \<and> map_of (own new) ''scope'' =
        Some (or_else (read_prop old ''scope'')
               (JArr [JStr ''https://www.googleapis.com/auth/youtube.readonly'']), True)
      \<and> truthy (read_prop new ''authorizationURL'')
      \<and> truthy (read_prop new ''tokenURL'')
      \<and> truthy (read_prop new ''scope'')
      \<and> (\<forall>k. k \<notin> {''authorizationURL'', ''tokenURL'', ''scope''} \<longrightarrow>
               map_of (own new) k = map_of (own old) k)
      \<and> inherited new = inherited old
      \<and> extensible new = extensible old
      \<and> (\<forall>r'. r' \<noteq> r \<longrightarrow> objs st' r' = objs st r')"
  using assms
  by (simp add: store_after_Strategy objs_default_option own_write_prop read_prop_write_prop
      can_write_write_prop inherited_write_prop extensible_write_prop truthy_or_else Let_def)

theorem Strategy_writes_options_witness:
  "can_write caller_options ''authorizationURL''
   \<and> can_write caller_options ''tokenURL''
   \<and> can_write caller_options ''scope''
   \<and> ''clientID'' \<notin> {''authorizationURL'', ''tokenURL'', ''scope''}
   \<and> (1::nat) \<noteq> 0
   \<and> map_of (own (objs (fst (Strategy OAuth2Strategy_accepts caller_store (Some 0) ())) 0))
        ''authorizationURL'' = Some (JStr ''https://accounts.google.com/o/oauth2/auth'', True)
   \<and> map_of (own (objs (fst (Strategy OAuth2Strategy_accepts caller_store (Some 0) ())) 0))
        ''tokenURL'' = Some (JStr ''https://example.org/token'', True)
   \<and> map_of (own (objs (fst (Strategy OAuth2Strategy_accepts caller_store (Some 0) ())) 0))
        ''scope'' = Some (JArr [JStr ''https://www.googleapis.com/auth/youtube''], True)
   \<and> map_of (own (objs (fst (Strategy OAuth2Strategy_accepts caller_store (Some 0) ())) 0))
        ''clientID'' = Some (JStr ''id-1'', True)
   \<and> objs (fst (Strategy OAuth2Strategy_accepts caller_store (Some 0) ())) 1 = other_object"
proof -
  have old: "objs caller_store 0 = caller_options"
    by (simp add: caller_store_def)
  have w: "can_write caller_options ''authorizationURL''"
    "can_write caller_options ''tokenURL''" "can_write caller_options ''scope''"
    by (simp_all add: can_write_def caller_options_def)
  from Strategy_writes_options
         [of caller_store 0 OAuth2Strategy_accepts "()", unfolded old, OF w] w
  show ?thesis
    by (simp add: Let_def old caller_store_def caller_options_def read_prop_def or_else_def)
qed

text \<open>
  C10 as it was stated fails: on the frozen options object none of the three assignments
  takes effect. The constructor returns a strategy, the object is as it was, and it still
  has no \<^verbatim>\<open>scope\<close>.
\<close>

theorem Strategy_writes_options_counterexample:
  "objs frozen_store 0 = frozen_options
   \<and> snd (Strategy OAuth2Strategy_accepts frozen_store (Some 0) ()) =
       Inr \<lparr>name = ''youtube'',
            priv_profileURL =
              JStr ''https://www.googleapis.com/youtube/v3/channels?part=snippet&mine=true''\<rparr>
   \<and> objs (fst (Strategy OAuth2Strategy_accepts frozen_store (Some 0) ())) 0 = frozen_options
   \<and> map_of (own frozen_options) ''scope'' = None
   \<and> read_prop frozen_options ''scope'' = JUndefined"
proof -
  have old: "objs frozen_store 0 = frozen_options"
    by (simp add: frozen_store_def)
  have "\<not> can_write frozen_options ''authorizationURL''"
    "\<not> can_write frozen_options ''tokenURL''" "\<not> can_write frozen_options ''scope''"
    by (simp_all add: can_write_def frozen_options_def)
  then have same: "fst (Strategy OAuth2Strategy_accepts frozen_store (Some 0) ()) = frozen_store"
    by (simp add: store_after_Strategy default_option_dropped old)
  have none: "map_of (own frozen_options) ''scope'' = None"
    and undef: "read_prop frozen_options ''scope'' = JUndefined"
    and url: "read_prop frozen_options ''profileURL'' = JUndefined"
    by (simp_all add: read_prop_def frozen_options_def)
  have "snd (Strategy OAuth2Strategy_accepts frozen_store (Some 0) ()) =
       Inr \<lparr>name = ''youtube'',
            priv_profileURL =
              JStr ''https://www.googleapis.com/youtube/v3/channels?part=snippet&mine=true''\<rparr>"
    by (simp add: result_of_Strategy same old url or_else_def OAuth2Strategy_accepts_def)
  with old same none undef show ?thesis
    by simp
qed

end
